theory Spec2Isabelle
  imports Complex_Main "HOL-Library.Product_Lexorder"
begin

section \<open>Python values\<close>

text \<open>
  The exporter (\<^verbatim>\<open>src/app/export_events.py\<close>) works on floats, integers, strings and
  \<^verbatim>\<open>None\<close>.  A Python float is modelled by the exact rational it denotes, together with
  the three special values; arithmetic on floats is exact in the model (binary rounding
  of the IEEE format is not represented).  Strings are ASCII strings.  An exception is a
  value of type \<open>error\<close>, and a function that can raise returns \<open>error + 'a\<close>.
\<close>

datatype pyfloat = NaN | NegInf | Fin rat | PosInf

datatype error = TypeError | ValueError | OverflowError

datatype pyval = PyNone | PyFloat pyfloat | PyInt int | PyStr string

text \<open>Comparison of floats as Python does it: every comparison with NaN is false.\<close>

fun float_le :: "pyfloat \<Rightarrow> pyfloat \<Rightarrow> bool" where
  "float_le NaN _ = False"
| "float_le _ NaN = False"
| "float_le NegInf _ = True"
| "float_le _ PosInf = True"
| "float_le (Fin x) (Fin y) = (x \<le> y)"
| "float_le (Fin x) NegInf = False"
| "float_le PosInf _ = False"

definition float_ge :: "pyfloat \<Rightarrow> pyfloat \<Rightarrow> bool" where
  "float_ge a b = float_le b a"

definition float_lt :: "pyfloat \<Rightarrow> pyfloat \<Rightarrow> bool" where
  "float_lt a b = (float_le a b \<and> a \<noteq> b)"

definition float_gt :: "pyfloat \<Rightarrow> pyfloat \<Rightarrow> bool" where
  "float_gt a b = float_lt b a"

text \<open>
  Rounding to the nearest integer, ties to the even neighbour: what \<^verbatim>\<open>round\<close> of Python 3
  and of pandas/NumPy do.
\<close>

definition rint :: "rat \<Rightarrow> int" where
  "rint x =
     (let f = \<lfloor>x\<rfloor>; d = x - of_int f in
      if d < 1 / 2 then f
      else if 1 / 2 < d then f + 1
      else if even f then f else f + 1)"

text \<open>\<^verbatim>\<open>round(x, ndigits)\<close> on a float: NaN and the infinities are returned as they are.\<close>

fun py_round :: "pyfloat \<Rightarrow> nat \<Rightarrow> pyfloat" where
  "py_round (Fin x) ndigits = Fin (of_int (rint (x * 10 ^ ndigits)) / 10 ^ ndigits)"
| "py_round f ndigits = f"

subsection \<open>Strings\<close>

definition is_space :: "char \<Rightarrow> bool" where
  "is_space c \<longleftrightarrow>
     c \<in> set [CHR 0x09, CHR 0x0A, CHR 0x0B, CHR 0x0C, CHR 0x0D,
              CHR 0x1C, CHR 0x1D, CHR 0x1E, CHR 0x1F, CHR 0x20]"

definition py_strip :: "string \<Rightarrow> string" where
  "py_strip s = rev (dropWhile is_space (rev (dropWhile is_space s)))"

definition lower_char :: "char \<Rightarrow> char" where
  "lower_char c =
     (case map_of (zip ''ABCDEFGHIJKLMNOPQRSTUVWXYZ'' ''abcdefghijklmnopqrstuvwxyz'') c of
        None \<Rightarrow> c
      | Some d \<Rightarrow> d)"

definition py_lower :: "string \<Rightarrow> string" where
  "py_lower s = map lower_char s"

subsection \<open>\<^verbatim>\<open>float(...)\<close>\<close>

text \<open>
  \<^verbatim>\<open>float\<close> of a string accepts, between optional white space, an optional sign followed
  by \<^verbatim>\<open>inf\<close>, \<^verbatim>\<open>infinity\<close>, \<^verbatim>\<open>nan\<close> (in any case) or by a decimal number: digits with an
  optional point and an optional exponent, where single underscores may stand between
  digits.  Anything else is a \<^verbatim>\<open>ValueError\<close> (here: \<open>None\<close>).  On an ASCII string the white
  space that \<^verbatim>\<open>float\<close> skips is that of C (the separators \<^verbatim>\<open>0x1C\<close> to \<^verbatim>\<open>0x1F\<close>, which
  \<^verbatim>\<open>str.strip\<close> removes, are not part of it).
\<close>

definition is_c_space :: "char \<Rightarrow> bool" where
  "is_c_space c \<longleftrightarrow> c \<in> set [CHR 0x09, CHR 0x0A, CHR 0x0B, CHR 0x0C, CHR 0x0D, CHR 0x20]"

definition c_strip :: "string \<Rightarrow> string" where
  "c_strip s = rev (dropWhile is_c_space (rev (dropWhile is_c_space s)))"

definition digit_val :: "char \<Rightarrow> int option" where
  "digit_val c = map_of (zip ''0123456789'' [0, 1, 2, 3, 4, 5, 6, 7, 8, 9]) c"

fun digitpart :: "string \<Rightarrow> int list \<times> string" where
  "digitpart [] = ([], [])"
| "digitpart (c # cs) =
     (case digit_val c of
        None \<Rightarrow> ([], c # cs)
      | Some d \<Rightarrow>
          (case cs of
             u # c2 # r \<Rightarrow>
               if u = CHR ''_'' \<and> digit_val c2 \<noteq> None
               then (case digitpart (c2 # r) of (ds, rest) \<Rightarrow> (d # ds, rest))
               else (case digitpart cs of (ds, rest) \<Rightarrow> (d # ds, rest))
           | _ \<Rightarrow> (case digitpart cs of (ds, rest) \<Rightarrow> (d # ds, rest))))"

definition digits_value :: "int list \<Rightarrow> int" where
  "digits_value ds = foldl (\<lambda>a d. 10 * a + d) 0 ds"

definition split_sign :: "string \<Rightarrow> bool \<times> string" where
  "split_sign s =
     (case s of
        c # r \<Rightarrow> if c = CHR ''-'' then (True, r) else if c = CHR ''+'' then (False, r) else (False, s)
      | [] \<Rightarrow> (False, s))"

definition scale10 :: "int \<Rightarrow> int \<Rightarrow> rat" where
  "scale10 m e = (if 0 \<le> e then of_int m * 10 ^ nat e else of_int m / 10 ^ nat (- e))"

definition parse_decimal :: "string \<Rightarrow> rat option" where
  "parse_decimal s =
     (case digitpart s of (ip, r1) \<Rightarrow>
        (case (case r1 of c # r \<Rightarrow> if c = CHR ''.'' then digitpart r else ([], r1) | [] \<Rightarrow> ([], r1))
         of (fp, r2) \<Rightarrow>
           if ip = [] \<and> fp = [] then None
           else
             (let m = digits_value (ip @ fp); k = int (length fp) in
              case r2 of
                [] \<Rightarrow> Some (scale10 m (- k))
              | c # r \<Rightarrow>
                  if c = CHR ''e'' \<or> c = CHR ''E'' then
                    (case split_sign r of (neg, r3) \<Rightarrow>
                       (case digitpart r3 of (ep, r4) \<Rightarrow>
                          if ep = [] \<or> r4 \<noteq> [] then None
                          else
                            (let e = digits_value ep in
                             Some (scale10 m ((if neg then - e else e) - k)))))
                  else None)))"

definition py_float_of_str :: "string \<Rightarrow> pyfloat option" where
  "py_float_of_str s =
     (case split_sign (c_strip s) of (neg, body) \<Rightarrow>
        if py_lower body = ''inf'' \<or> py_lower body = ''infinity''
        then Some (if neg then NegInf else PosInf)
        else if py_lower body = ''nan'' then Some NaN
        else (case parse_decimal body of
                None \<Rightarrow> None
              | Some q \<Rightarrow> Some (Fin (if neg then - q else q))))"

text \<open>
  \<^verbatim>\<open>float\<close> of an integer raises \<^verbatim>\<open>OverflowError\<close> when the integer, rounded to 53 bits,
  is beyond the largest double: from \<open>2^1024 - 2^970\<close> on.
\<close>

definition float_of_int :: "int \<Rightarrow> error + pyfloat" where
  "float_of_int n =
     (if 2 ^ 1024 - 2 ^ 970 \<le> \<bar>n\<bar> then Inl OverflowError else Inr (Fin (of_int n)))"

fun py_float :: "pyval \<Rightarrow> error + pyfloat" where
  "py_float PyNone = Inl TypeError"
| "py_float (PyFloat f) = Inr f"
| "py_float (PyInt n) = float_of_int n"
| "py_float (PyStr s) = (case py_float_of_str s of None \<Rightarrow> Inl ValueError | Some f \<Rightarrow> Inr f)"

text \<open>\<^verbatim>\<open>pd.isna\<close> on a scalar.\<close>

fun pd_isna :: "pyval \<Rightarrow> bool" where
  "pd_isna PyNone = True"
| "pd_isna (PyFloat f) = (f = NaN)"
| "pd_isna _ = False"

section \<open>The confidence rank\<close>

definition CONFIDENCE_THRESHOLDS_nominal :: pyfloat where
  "CONFIDENCE_THRESHOLDS_nominal = Fin 30"

definition CONFIDENCE_THRESHOLDS_high :: pyfloat where
  "CONFIDENCE_THRESHOLDS_high = Fin 80"

definition CONFIDENCE_LABELS :: "int \<Rightarrow> string option" where
  "CONFIDENCE_LABELS = [0 \<mapsto> ''low'', 1 \<mapsto> ''nominal'', 2 \<mapsto> ''high'']"

text \<open>
  The end of \<^verbatim>\<open>_confidence_rank\<close>: \<^verbatim>\<open>float(value)\<close> under
  \<^verbatim>\<open>except (TypeError, ValueError)\<close>, then the thresholds.  An \<^verbatim>\<open>OverflowError\<close> is not caught.
\<close>

definition score_rank :: "pyval \<Rightarrow> error + int" where
  "score_rank v =
     (case py_float v of
        Inl TypeError \<Rightarrow> Inr 0
      | Inl ValueError \<Rightarrow> Inr 0
      | Inl OverflowError \<Rightarrow> Inl OverflowError
      | Inr score \<Rightarrow>
          if float_ge score CONFIDENCE_THRESHOLDS_high then Inr 2
          else if float_ge score CONFIDENCE_THRESHOLDS_nominal then Inr 1
          else Inr 0)"

text \<open>
  \<^verbatim>\<open>_confidence_rank\<close>.  A string that is no label goes through \<^verbatim>\<open>float\<close> once, and the
  number it denotes then takes the path of every other value.
\<close>

definition confidence_rank :: "pyval \<Rightarrow> error + int" where
  "confidence_rank value =
     (if value = PyNone \<or> pd_isna value then Inr 0
      else
        (case value of
           PyStr s \<Rightarrow>
             (let normalized = py_lower (py_strip s) in
              if normalized \<in> {''high'', ''h''} then Inr 2
              else if normalized \<in> {''nominal'', ''n''} then Inr 1
              else if normalized \<in> {''low'', ''l''} then Inr 0
              else (case py_float (PyStr normalized) of
                      Inl ValueError \<Rightarrow> Inr 0
                    | Inl e \<Rightarrow> Inl e
                    | Inr v \<Rightarrow> score_rank (PyFloat v)))
         | _ \<Rightarrow> score_rank value))"

section \<open>Dates\<close>

text \<open>
  A calendar date is its proleptic Gregorian ordinal (\<^verbatim>\<open>date.toordinal()\<close>: 1 is
  0001-01-01); a timestamp is a date with the time of day (in microseconds), and
  timestamps are ordered lexicographically.
  Python's dates range over the years 1 to 9999, and a \<^verbatim>\<open>timedelta\<close> holds at most
  999999999 days: arithmetic that leaves these ranges raises \<^verbatim>\<open>OverflowError\<close>.
\<close>

type_synonym date = int

type_synonym timestamp = "int \<times> int"

definition MINORDINAL :: int where
  "MINORDINAL = 1"

definition MAXORDINAL :: int where
  "MAXORDINAL = 3652059"

definition MAX_DELTA_DAYS :: int where
  "MAX_DELTA_DAYS = 999999999"

definition DAYS_IN_MONTH :: "int list" where
  "DAYS_IN_MONTH = [-1, 31, 28, 31, 30, 31, 30, 31, 31, 30, 31, 30, 31]"

definition DAYS_BEFORE_MONTH :: "int list" where
  "DAYS_BEFORE_MONTH = [-1, 0, 31, 59, 90, 120, 151, 181, 212, 243, 273, 304, 334]"

text \<open>The conversion of an ordinal to year, month and day, as the \<^verbatim>\<open>datetime\<close> module does it.\<close>

definition ord2ymd :: "date \<Rightarrow> int \<times> int \<times> int" where
  "ord2ymd n =
     (let n0 = n - 1;
          n400 = n0 div 146097; r400 = n0 mod 146097;
          n100 = r400 div 36524; r100 = r400 mod 36524;
          n4 = r100 div 1461; r4 = r100 mod 1461;
          n1 = r4 div 365; r1 = r4 mod 365;
          year = n400 * 400 + 1 + n100 * 100 + n4 * 4 + n1
      in if n1 = 4 \<or> n100 = 4 then (year - 1, 12, 31)
         else
           (let leapyear = (n1 = 3 \<and> (n4 \<noteq> 24 \<or> n100 = 3));
                month = (r1 + 50) div 32;
                preceding = DAYS_BEFORE_MONTH ! nat month + (if 2 < month \<and> leapyear then 1 else 0)
            in if r1 < preceding
               then (let month' = month - 1;
                         preceding' = preceding
                           - (DAYS_IN_MONTH ! nat month' + (if month' = 2 \<and> leapyear then 1 else 0))
                     in (year, month', r1 - preceding' + 1))
               else (year, month, r1 - preceding + 1)))"

definition digit_char :: "int \<Rightarrow> char" where
  "digit_char d = ''0123456789'' ! nat d"

definition pad2 :: "int \<Rightarrow> string" where
  "pad2 n = [digit_char (n div 10 mod 10), digit_char (n mod 10)]"

definition pad4 :: "int \<Rightarrow> string" where
  "pad4 n = [digit_char (n div 1000 mod 10), digit_char (n div 100 mod 10),
             digit_char (n div 10 mod 10), digit_char (n mod 10)]"

text \<open>\<^verbatim>\<open>date.isoformat()\<close>: \<^verbatim>\<open>YYYY-MM-DD\<close>.\<close>

definition isoformat_date :: "date \<Rightarrow> string" where
  "isoformat_date n = (case ord2ymd n of (y, m, d) \<Rightarrow> pad4 y @ ''-'' @ pad2 m @ ''-'' @ pad2 d)"

definition pad6 :: "int \<Rightarrow> string" where
  "pad6 n = pad2 (n div 10000) @ pad4 n"

text \<open>
  \<^verbatim>\<open>time.isoformat()\<close> of a time of day given in microseconds: \<^verbatim>\<open>HH:MM:SS\<close>, followed by
  the six digits of the microseconds when they are not zero.
\<close>

definition isoformat_time :: "int \<Rightarrow> string" where
  "isoformat_time us =
     pad2 (us div 3600000000) @ '':'' @ pad2 (us div 60000000 mod 60) @ '':''
       @ pad2 (us div 1000000 mod 60)
       @ (if us mod 1000000 = 0 then [] else ''.'' @ pad6 (us mod 1000000))"

text \<open>
  The values \<^verbatim>\<open>_format_date\<close> tells apart: \<^verbatim>\<open>None\<close>; the missing values \<^verbatim>\<open>NaT\<close> and NaN;
  a \<^verbatim>\<open>datetime\<close> (a pandas \<^verbatim>\<open>Timestamp\<close> is one); a \<^verbatim>\<open>date\<close>; and any other scalar
  object, given by the result of its \<^verbatim>\<open>isoformat()\<close> when it has that attribute and by its
  \<^verbatim>\<open>str()\<close>.  Lists and arrays, for which \<^verbatim>\<open>pd.isna\<close> answers element by element, are not
  among these values.
\<close>

datatype date_value =
    DNone
  | DNaT
  | DNaN
  | DDatetime timestamp
  | DDate date
  | DObject "string option" string

text \<open>\<^verbatim>\<open>pd.isna(value)\<close>.\<close>

fun date_isna :: "date_value \<Rightarrow> bool" where
  "date_isna DNone = True"
| "date_isna DNaT = True"
| "date_isna DNaN = True"
| "date_isna _ = False"

text \<open>
  \<^verbatim>\<open>value.isoformat()\<close>, or \<open>None\<close> when the value has no such attribute.  A \<^verbatim>\<open>datetime\<close>
  has one too: it gives the date, a \<^verbatim>\<open>T\<close> and the time of day.
\<close>

fun isoformat_of :: "date_value \<Rightarrow> string option" where
  "isoformat_of (DDatetime t) = Some (isoformat_date (fst t) @ ''T'' @ isoformat_time (snd t))"
| "isoformat_of (DDate d) = Some (isoformat_date d)"
| "isoformat_of DNaT = Some ''NaT''"
| "isoformat_of (DObject formatted s) = formatted"
| "isoformat_of _ = None"

text \<open>\<^verbatim>\<open>str(value)\<close>.\<close>

fun py_str :: "date_value \<Rightarrow> string" where
  "py_str DNone = ''None''"
| "py_str DNaT = ''NaT''"
| "py_str DNaN = ''nan''"
| "py_str (DDatetime t) = isoformat_date (fst t) @ '' '' @ isoformat_time (snd t)"
| "py_str (DDate d) = isoformat_date d"
| "py_str (DObject formatted s) = s"

text \<open>
  \<^verbatim>\<open>_format_date\<close>: the test for a \<^verbatim>\<open>datetime\<close> comes before the test for the attribute.
\<close>

definition format_date :: "date_value \<Rightarrow> string" where
  "format_date value =
     (if value = DNone \<or> date_isna value then []
      else
        (case value of
           DDatetime t \<Rightarrow> isoformat_date (fst t)
         | _ \<Rightarrow>
             (case isoformat_of value of
                Some formatted \<Rightarrow> formatted
              | None \<Rightarrow> py_str value)))"

section \<open>Fire detections\<close>

text \<open>
  Modelled from the spec: the columns of the table that \<^verbatim>\<open>FIRMSClient\<close> holds
  (\<^verbatim>\<open>firms_client.py\<close> is not among the sources).  Section 3 of the specification gives
  a raw fire detection a latitude, a longitude, an acquisition date and a brightness,
  a fire radiative power that may be absent, and a confidence that is a number, a
  string or absent.
\<close>

record fire_detection =
  latitude :: rat
  longitude :: rat
  acq_date :: timestamp
  brightness :: rat
  frp :: "rat option"
  confidence :: pyval

text \<open>
  \<^verbatim>\<open>datetime.utcnow() - timedelta(days=days)\<close> for the current time \<open>now\<close>, and the date
  of the result.
\<close>

definition minus_days :: "timestamp \<Rightarrow> int \<Rightarrow> error + timestamp" where
  "minus_days now days =
     (if MAX_DELTA_DAYS < \<bar>days\<bar> then Inl OverflowError
      else if fst now - days < MINORDINAL \<or> MAXORDINAL < fst now - days then Inl OverflowError
      else Inr (fst now - days, snd now))"

definition cutoff_date :: "timestamp \<Rightarrow> int \<Rightarrow> error + date" where
  "cutoff_date now days =
     (case minus_days now days of Inl e \<Rightarrow> Inl e | Inr t \<Rightarrow> Inr (fst t))"

text \<open>The recency filter: \<^verbatim>\<open>data[data['acq_date'].dt.date >= cutoff_date]\<close>.\<close>

definition recent :: "date \<Rightarrow> fire_detection list \<Rightarrow> fire_detection list" where
  "recent cutoff data = filter (\<lambda>d. cutoff \<le> fst (acq_date d)) data"

text \<open>The grid snap \<^verbatim>\<open>(x * 10).round() / 10\<close>.\<close>

definition grid :: "rat \<Rightarrow> rat" where
  "grid x = of_int (rint (x * 10)) / 10"

text \<open>A row of \<^verbatim>\<open>recent_fires\<close> once the three derived columns are added.\<close>

record fire_row =
  detection :: fire_detection
  grid_lat :: rat
  grid_lon :: rat
  confidence_rank_col :: int

text \<open>\<^verbatim>\<open>recent_fires['confidence'].apply(_confidence_rank)\<close>: the first exception ends it.\<close>

fun apply_confidence_rank :: "pyval list \<Rightarrow> error + int list" where
  "apply_confidence_rank [] = Inr []"
| "apply_confidence_rank (v # vs) =
     (case confidence_rank v of
        Inl e \<Rightarrow> Inl e
      | Inr r \<Rightarrow>
          (case apply_confidence_rank vs of
             Inl e \<Rightarrow> Inl e
           | Inr rs \<Rightarrow> Inr (r # rs)))"

definition add_columns :: "fire_detection list \<Rightarrow> int list \<Rightarrow> fire_row list" where
  "add_columns ds ranks =
     map2 (\<lambda>d r. \<lparr>detection = d, grid_lat = grid (latitude d),
                     grid_lon = grid (longitude d), confidence_rank_col = r\<rparr>) ds ranks"

subsection \<open>The pandas reductions\<close>

text \<open>
  A cell of a column is \<open>None\<close> when it is null (NaN, \<^verbatim>\<open>NaT\<close>).  The reductions skip
  null cells; \<^verbatim>\<open>max\<close>, \<^verbatim>\<open>min\<close> and \<^verbatim>\<open>mean\<close> of no value are null, and \<^verbatim>\<open>count\<close> is the
  number of cells that are not null.
\<close>

fun pd_max :: "'a::linorder option list \<Rightarrow> 'a option" where
  "pd_max [] = None"
| "pd_max (None # xs) = pd_max xs"
| "pd_max (Some x # xs) = (case pd_max xs of None \<Rightarrow> Some x | Some m \<Rightarrow> Some (max x m))"

fun pd_min :: "'a::linorder option list \<Rightarrow> 'a option" where
  "pd_min [] = None"
| "pd_min (None # xs) = pd_min xs"
| "pd_min (Some x # xs) = (case pd_min xs of None \<Rightarrow> Some x | Some m \<Rightarrow> Some (min x m))"

fun present :: "'a option list \<Rightarrow> 'a list" where
  "present [] = []"
| "present (None # xs) = present xs"
| "present (Some x # xs) = x # present xs"

definition pd_count :: "'a option list \<Rightarrow> nat" where
  "pd_count xs = length (present xs)"

definition pd_mean :: "rat option list \<Rightarrow> rat option" where
  "pd_mean xs =
     (if pd_count xs = 0 then None
      else Some (sum_list (present xs) / of_nat (pd_count xs)))"

text \<open>
  \<^verbatim>\<open>groupby(['grid_lat', 'grid_lon'])\<close>: one group per distinct key, the keys in
  ascending order, each group the rows of that key.
\<close>

definition row_key :: "fire_row \<Rightarrow> rat \<times> rat" where
  "row_key r = (grid_lat r, grid_lon r)"

definition group_keys :: "fire_row list \<Rightarrow> (rat \<times> rat) list" where
  "group_keys rows = sort (remdups (map row_key rows))"

definition group_rows :: "fire_row list \<Rightarrow> rat \<times> rat \<Rightarrow> fire_row list" where
  "group_rows rows k = filter (\<lambda>r. row_key r = k) rows"

text \<open>
  A row of \<^verbatim>\<open>aggregated\<close>, with the flattened column names and the label column.  The
  brightness, the acquisition date and the rank of a row are always present, so their
  cells enter the reductions as \<open>Some\<close>; a cell of \<^verbatim>\<open>frp\<close> may be null.
\<close>

record agg_row =
  lat :: rat
  lon :: rat
  brightness_max :: "rat option"
  brightness_avg :: "rat option"
  count :: nat
  frp_max :: "rat option"
  date_first :: "timestamp option"
  date_last :: "timestamp option"
  confidence_rank_max :: "int option"
  confidence_label :: "string option"

definition agg :: "rat \<times> rat \<Rightarrow> fire_row list \<Rightarrow> agg_row" where
  "agg k g =
     (let rank = pd_max (map (\<lambda>r. Some (confidence_rank_col r)) g) in
      \<lparr>lat = fst k, lon = snd k,
       brightness_max = pd_max (map (\<lambda>r. Some (brightness (detection r))) g),
       brightness_avg = pd_mean (map (\<lambda>r. Some (brightness (detection r))) g),
       count = pd_count (map (\<lambda>r. Some (brightness (detection r))) g),
       frp_max = pd_max (map (\<lambda>r. frp (detection r)) g),
       date_first = pd_min (map (\<lambda>r. Some (acq_date (detection r))) g),
       date_last = pd_max (map (\<lambda>r. Some (acq_date (detection r))) g),
       confidence_rank_max = rank,
       confidence_label = (case rank of None \<Rightarrow> None | Some r \<Rightarrow> CONFIDENCE_LABELS r)\<rparr>)"

definition aggregate :: "fire_row list \<Rightarrow> agg_row list" where
  "aggregate rows = map (\<lambda>k. agg k (group_rows rows k)) (group_keys rows)"

subsection \<open>The exported fire record\<close>

record fire_record =
  lat :: pyfloat
  lon :: pyfloat
  date :: string
  date_first :: string
  brightness :: pyfloat
  brightness_avg :: pyfloat
  frp :: "pyfloat option"
  count :: int
  confidence :: string

definition float_of_cell :: "rat option \<Rightarrow> pyfloat" where
  "float_of_cell c = (case c of None \<Rightarrow> NaN | Some x \<Rightarrow> Fin x)"

definition date_of_cell :: "timestamp option \<Rightarrow> date_value" where
  "date_of_cell c = (case c of None \<Rightarrow> DNaT | Some t \<Rightarrow> DDatetime t)"

definition fire_of_row :: "agg_row \<Rightarrow> fire_record" where
  "fire_of_row row =
     \<lparr>fire_record.lat = py_round (Fin (agg_row.lat row)) 1,
      fire_record.lon = py_round (Fin (agg_row.lon row)) 1,
      fire_record.date = format_date (date_of_cell (date_last row)),
      fire_record.date_first = format_date (date_of_cell (agg_row.date_first row)),
      fire_record.brightness = py_round (float_of_cell (brightness_max row)) 1,
      fire_record.brightness_avg = py_round (float_of_cell (agg_row.brightness_avg row)) 1,
      fire_record.frp =
        (case frp_max row of None \<Rightarrow> None | Some x \<Rightarrow> Some (py_round (Fin x) 1)),
      fire_record.count = int (agg_row.count row),
      fire_record.confidence =
        (case confidence_label row of None \<Rightarrow> ''nan'' | Some s \<Rightarrow> s)\<rparr>"

text \<open>
  \<^verbatim>\<open>export_fire_events\<close>, for the current time \<open>now\<close> and the table \<open>data\<close> of the client
  (\<open>None\<close> when the client has none).
\<close>

definition export_fire_events ::
    "timestamp \<Rightarrow> int \<Rightarrow> fire_detection list option \<Rightarrow> error + fire_record list" where
  "export_fire_events now days data =
     (case data of
        None \<Rightarrow> Inr []
      | Some rows \<Rightarrow>
          if length rows = 0 then Inr []
          else
            (case cutoff_date now days of
               Inl e \<Rightarrow> Inl e
             | Inr cutoff \<Rightarrow>
                 (let recent_fires = recent cutoff rows in
                  if length recent_fires = 0 then Inr []
                  else
                    (case apply_confidence_rank (map fire_detection.confidence recent_fires) of
                       Inl e \<Rightarrow> Inl e
                     | Inr ranks \<Rightarrow>
                         Inr (map fire_of_row (aggregate (add_columns recent_fires ranks)))))))"

section \<open>Earthquakes\<close>

text \<open>
  A raw earthquake record is a dictionary from field names to values.
  \<^verbatim>\<open>quake.get(key, default)\<close> gives the default only when the key is absent.
\<close>

type_synonym quake = "string \<Rightarrow> pyval option"

definition dict_get :: "quake \<Rightarrow> string \<Rightarrow> pyval \<Rightarrow> pyval" where
  "dict_get q k dflt = (case q k of None \<Rightarrow> dflt | Some v \<Rightarrow> v)"

record earthquake_record =
  lat :: pyfloat
  lon :: pyfloat
  date :: pyval
  magnitude :: pyfloat
  depth :: pyfloat
  place :: pyval
  type :: pyval

text \<open>
  The dictionary built for one raw record.  Its entries are evaluated in the order they
  are written, and the first \<^verbatim>\<open>float(...)\<close> that raises ends the export.
\<close>

definition earthquake_of :: "quake \<Rightarrow> error + earthquake_record" where
  "earthquake_of quake =
     (case py_float (dict_get quake ''latitude'' (PyInt 0)) of
        Inl e \<Rightarrow> Inl e
      | Inr la \<Rightarrow>
     (case py_float (dict_get quake ''longitude'' (PyInt 0)) of
        Inl e \<Rightarrow> Inl e
      | Inr lo \<Rightarrow>
     (case py_float (dict_get quake ''mag'' (PyInt 0)) of
        Inl e \<Rightarrow> Inl e
      | Inr mag \<Rightarrow>
     (case py_float (dict_get quake ''depth_km'' (PyInt 0)) of
        Inl e \<Rightarrow> Inl e
      | Inr dep \<Rightarrow>
          Inr \<lparr>earthquake_record.lat = py_round la 4,
               earthquake_record.lon = py_round lo 4,
               earthquake_record.date = dict_get quake ''time'' (PyStr []),
               magnitude = py_round mag 1,
               depth = py_round dep 1,
               place = dict_get quake ''place'' (PyStr ''Unknown''),
               type = dict_get quake ''type'' (PyStr ''earthquake'')\<rparr>))))"

fun convert_quakes :: "quake list \<Rightarrow> error + earthquake_record list" where
  "convert_quakes [] = Inr []"
| "convert_quakes (quake # rest) =
     (case earthquake_of quake of
        Inl e \<Rightarrow> Inl e
      | Inr earthquake \<Rightarrow>
          (case convert_quakes rest of
             Inl e \<Rightarrow> Inl e
           | Inr earthquakes \<Rightarrow> Inr (earthquake # earthquakes)))"

text \<open>
  \<^verbatim>\<open>export_earthquake_events\<close>, for the current time \<open>now\<close> and the value \<open>quakes_raw\<close> that
  the client returns for the query (\<open>None\<close> for Python's \<^verbatim>\<open>None\<close>).  The start of the date
  range is computed before the client is asked.
\<close>

definition export_earthquake_events ::
    "timestamp \<Rightarrow> int \<Rightarrow> quake list option \<Rightarrow> error + earthquake_record list" where
  "export_earthquake_events now days quakes_raw =
     (case minus_days now days of
        Inl e \<Rightarrow> Inl e
      | Inr start_date \<Rightarrow>
          (case quakes_raw of
             None \<Rightarrow> Inr []
           | Some quakes \<Rightarrow> if quakes = [] then Inr [] else convert_quakes quakes))"

section \<open>The export document\<close>

text \<open>
  \<^verbatim>\<open>min(values, default=0)\<close> and \<^verbatim>\<open>max(values, default=0)\<close>: the first value is kept until
  a later one compares smaller (larger).
\<close>

fun min_from :: "pyfloat \<Rightarrow> pyfloat list \<Rightarrow> pyfloat" where
  "min_from m [] = m"
| "min_from m (x # xs) = min_from (if float_lt x m then x else m) xs"

fun max_from :: "pyfloat \<Rightarrow> pyfloat list \<Rightarrow> pyfloat" where
  "max_from m [] = m"
| "max_from m (x # xs) = max_from (if float_gt x m then x else m) xs"

definition py_min :: "pyfloat list \<Rightarrow> pyfloat \<Rightarrow> pyfloat" where
  "py_min xs dflt = (case xs of [] \<Rightarrow> dflt | x # rest \<Rightarrow> min_from x rest)"

definition py_max :: "pyfloat list \<Rightarrow> pyfloat \<Rightarrow> pyfloat" where
  "py_max xs dflt = (case xs of [] \<Rightarrow> dflt | x # rest \<Rightarrow> max_from x rest)"

record stat_range =
  range_min :: pyfloat
  range_max :: pyfloat

record statistics =
  total_fires :: int
  total_earthquakes :: int
  fire_brightness_range :: stat_range
  earthquake_magnitude_range :: stat_range

text \<open>
  The entries \<^verbatim>\<open>statistics\<close>, \<^verbatim>\<open>fires\<close> and \<^verbatim>\<open>earthquakes\<close> of the document; the
  generation time and the date range, which are strings made from the clock, are left out.
\<close>

record export_document =
  statistics :: statistics
  fires :: "fire_record list"
  earthquakes :: "earthquake_record list"

definition build_output :: "fire_record list \<Rightarrow> earthquake_record list \<Rightarrow> export_document" where
  "build_output fs qs =
     \<lparr>statistics =
        \<lparr>total_fires = int (length fs),
         total_earthquakes = int (length qs),
         fire_brightness_range =
           (if fs \<noteq> []
            then \<lparr>range_min = py_min (map fire_record.brightness fs) (Fin 0),
                  range_max = py_max (map fire_record.brightness fs) (Fin 0)\<rparr>
            else \<lparr>range_min = Fin 0, range_max = Fin 0\<rparr>),
         earthquake_magnitude_range =
           (if qs \<noteq> []
            then \<lparr>range_min = py_min (map magnitude qs) (Fin 0),
                  range_max = py_max (map magnitude qs) (Fin 0)\<rparr>
            else \<lparr>range_min = Fin 0, range_max = Fin 0\<rparr>)\<rparr>,
      fires = fs,
      earthquakes = qs\<rparr>"

text \<open>
  \<^verbatim>\<open>main\<close> up to the document it writes: \<open>days\<close> is \<^verbatim>\<open>Config.EVENT_HISTORY_DAYS\<close>, \<open>data\<close>
  the table of the fire client and \<open>quakes_raw\<close> the answer of the earthquake client.
\<close>

definition main_output ::
    "timestamp \<Rightarrow> int \<Rightarrow> fire_detection list option \<Rightarrow> quake list option
       \<Rightarrow> error + export_document" where
  "main_output now days data quakes_raw =
     (case export_fire_events now days data of
        Inl e \<Rightarrow> Inl e
      | Inr fs \<Rightarrow>
          (case export_earthquake_events now days quakes_raw of
             Inl e \<Rightarrow> Inl e
           | Inr qs \<Rightarrow>
               (case minus_days now days of
                  Inl e \<Rightarrow> Inl e
                | Inr start_date \<Rightarrow> Inr (build_output fs qs))))"

section \<open>Claim C1: the confidence rank\<close>

text \<open>The rank of a number: 2 from 80 on, 1 from 30 on, 0 below.\<close>

definition number_rank :: "pyfloat \<Rightarrow> int" where
  "number_rank x = (if float_ge x (Fin 80) then 2 else if float_ge x (Fin 30) then 1 else 0)"

definition int_rank :: "int \<Rightarrow> int" where
  "int_rank n = (if 80 \<le> n then 2 else if 30 \<le> n then 1 else 0)"

definition label_rank :: "string \<Rightarrow> int option" where
  "label_rank t =
     (if t = ''high'' \<or> t = ''h'' then Some 2
      else if t = ''nominal'' \<or> t = ''n'' then Some 1
      else if t = ''low'' \<or> t = ''l'' then Some 0
      else None)"


text \<open>
  The same with the string first stripped of surrounding white space, which is what
  the code does.
\<close>

definition stripped_rank :: "pyval \<Rightarrow> int" where
  "stripped_rank v =
     (case v of
        PyNone \<Rightarrow> 0
      | PyFloat f \<Rightarrow> if f = NaN then 0 else number_rank f
      | PyInt n \<Rightarrow> int_rank n
      | PyStr s \<Rightarrow>
          (case label_rank (py_lower (py_strip s)) of
             Some r \<Rightarrow> r
           | None \<Rightarrow>
               (case py_float_of_str (py_lower (py_strip s)) of
                  None \<Rightarrow> 0
                | Some x \<Rightarrow> number_rank x)))"

section \<open>Grid cells\<close>

text \<open>The key of the cell of a detection, and the detections of a table in a cell.\<close>

definition cell_key :: "fire_detection \<Rightarrow> rat \<times> rat" where
  "cell_key d = (grid (latitude d), grid (longitude d))"

definition cell_keys :: "fire_detection list \<Rightarrow> (rat \<times> rat) list" where
  "cell_keys ds = sort (remdups (map cell_key ds))"

definition cell_members :: "fire_detection list \<Rightarrow> rat \<times> rat \<Rightarrow> fire_detection list" where
  "cell_members ds k = filter (\<lambda>d. cell_key d = k) ds"

text \<open>A row of \<^verbatim>\<open>recent_fires\<close> with its derived columns, when the confidence has a rank.\<close>

definition tagged :: "fire_detection \<Rightarrow> fire_row" where
  "tagged d =
     \<lparr>detection = d, grid_lat = grid (latitude d), grid_lon = grid (longitude d),
      confidence_rank_col = stripped_rank (fire_detection.confidence d)\<rparr>"

text \<open>Rounding to one decimal place, ties to the even digit.\<close>

definition round1 :: "rat \<Rightarrow> rat" where
  "round1 x = of_int (rint (x * 10)) / 10"

definition rank_label :: "int \<Rightarrow> string" where
  "rank_label r = (if r = 0 then ''low'' else if r = 1 then ''nominal'' else ''high'')"

text \<open>The values of \<^verbatim>\<open>frp\<close> that are present in a group.\<close>

definition present_frp :: "fire_detection list \<Rightarrow> rat list" where
  "present_frp g = present (map fire_detection.frp g)"

text \<open>
  The record of a cell as the claim describes it, with the rounding to one decimal:
  \<open>g\<close> is the group of the detections of cell \<open>k\<close>.
\<close>

definition cell_record :: "rat \<times> rat \<Rightarrow> fire_detection list \<Rightarrow> fire_record" where
  "cell_record k g =
     \<lparr>fire_record.lat = Fin (fst k),
      fire_record.lon = Fin (snd k),
      fire_record.date = isoformat_date (Max (set (map (\<lambda>d. fst (acq_date d)) g))),
      fire_record.date_first = isoformat_date (Min (set (map (\<lambda>d. fst (acq_date d)) g))),
      fire_record.brightness = Fin (round1 (Max (set (map fire_detection.brightness g)))),
      fire_record.brightness_avg =
        Fin (round1 (sum_list (map fire_detection.brightness g) / of_nat (length g))),
      fire_record.frp =
        (if present_frp g = [] then None else Some (Fin (round1 (Max (set (present_frp g)))))),
      fire_record.count = int (length g),
      fire_record.confidence =
        rank_label (Max (set (map (\<lambda>d. stripped_rank (fire_detection.confidence d)) g)))\<rparr>"

section \<open>Normalised earthquake records\<close>

text \<open>
  Modelled from the spec: the type of a raw earthquake record (\<^verbatim>\<open>usgs_client.py\<close>, which
  builds the records, is not among the sources).  Section 3 of the specification gives a
  raw record a latitude, a longitude, a magnitude and a depth; a field may be missing.
  So a raw record is well formed when each of its four numeric fields, if present, holds
  a value that \<^verbatim>\<open>float\<close> converts: a float, an integer within the range of a float, or a
  string that denotes a number.
\<close>

definition numeric_fields :: "string list" where
  "numeric_fields = [''latitude'', ''longitude'', ''mag'', ''depth_km'']"

definition well_formed_quake :: "quake \<Rightarrow> bool" where
  "well_formed_quake q \<longleftrightarrow>
     (\<forall>k\<in>set numeric_fields. case q k of None \<Rightarrow> True | Some v \<Rightarrow> \<not> isl (py_float v))"

text \<open>The number of a numeric field, 0.0 when the field is missing.\<close>

definition number_or_zero :: "quake \<Rightarrow> string \<Rightarrow> pyfloat" where
  "number_or_zero q k = (case q k of None \<Rightarrow> Fin 0 | Some v \<Rightarrow> projr (py_float v))"

text \<open>The record of a raw record as the claim describes it.\<close>

definition normalized_quake :: "quake \<Rightarrow> earthquake_record" where
  "normalized_quake q =
     \<lparr>earthquake_record.lat = py_round (number_or_zero q ''latitude'') 4,
      earthquake_record.lon = py_round (number_or_zero q ''longitude'') 4,
      earthquake_record.date = (case q ''time'' of None \<Rightarrow> PyStr [] | Some t \<Rightarrow> t),
      magnitude = py_round (number_or_zero q ''mag'') 1,
      depth = py_round (number_or_zero q ''depth_km'') 1,
      place = (case q ''place'' of None \<Rightarrow> PyStr ''Unknown'' | Some p \<Rightarrow> p),
      type = (case q ''type'' of None \<Rightarrow> PyStr ''earthquake'' | Some t \<Rightarrow> t)\<rparr>"

section \<open>Ranges\<close>

text \<open>
  A value is the minimum of a list when it is one of the values and none of them
  compares smaller; when none of the values is NaN it is then less than or equal to
  each.  The maximum likewise.
\<close>

definition is_min_of :: "pyfloat \<Rightarrow> pyfloat list \<Rightarrow> bool" where
  "is_min_of m xs \<longleftrightarrow>
     m \<in> set xs \<and> (\<forall>x\<in>set xs. \<not> float_lt x m)
     \<and> ((\<forall>x\<in>set xs. x \<noteq> NaN) \<longrightarrow> (\<forall>x\<in>set xs. float_le m x))"

definition is_max_of :: "pyfloat \<Rightarrow> pyfloat list \<Rightarrow> bool" where
  "is_max_of m xs \<longleftrightarrow>
     m \<in> set xs \<and> (\<forall>x\<in>set xs. \<not> float_gt x m)
     \<and> ((\<forall>x\<in>set xs. x \<noteq> NaN) \<longrightarrow> (\<forall>x\<in>set xs. float_le x m))"

text \<open>The range of the values of a category: \<open>{min: 0, max: 0}\<close> when there is none.\<close>

definition range_of :: "pyfloat list \<Rightarrow> stat_range \<Rightarrow> bool" where
  "range_of xs r \<longleftrightarrow>
     (if xs = [] then r = \<lparr>range_min = Fin 0, range_max = Fin 0\<rparr>
      else is_min_of (range_min r) xs \<and> is_max_of (range_max r) xs)"

section \<open>The confidence rank: theorems\<close>

lemma score_rank_float: "score_rank (PyFloat f) = Inr (number_rank f)"
  by (simp add: score_rank_def number_rank_def CONFIDENCE_THRESHOLDS_high_def
      CONFIDENCE_THRESHOLDS_nominal_def)

lemma score_rank_int_cases:
  "score_rank (PyInt n) =
     (if 2 ^ 1024 - 2 ^ 970 \<le> \<bar>n\<bar> then Inl OverflowError else Inr (int_rank n))"
  by (simp add: score_rank_def int_rank_def float_of_int_def float_ge_def
      CONFIDENCE_THRESHOLDS_high_def CONFIDENCE_THRESHOLDS_nominal_def)

lemma confidence_rank_str:
  "confidence_rank (PyStr s) = Inr (stripped_rank (PyStr s))"
  by (simp add: confidence_rank_def stripped_rank_def label_rank_def Let_def score_rank_float
      split: option.splits)

lemma confidence_rank_Inr: "confidence_rank v = Inr r \<Longrightarrow> r = stripped_rank v"
proof (cases v)
  case PyNone
  assume "confidence_rank v = Inr r"
  with PyNone show ?thesis by (simp add: confidence_rank_def stripped_rank_def)
next
  case (PyFloat f)
  assume "confidence_rank v = Inr r"
  with PyFloat show ?thesis
    by (auto simp: confidence_rank_def stripped_rank_def score_rank_float split: if_splits)
next
  case (PyInt n)
  assume "confidence_rank v = Inr r"
  with PyInt show ?thesis
    by (auto simp: confidence_rank_def stripped_rank_def score_rank_int_cases split: if_splits)
next
  case (PyStr s)
  assume "confidence_rank v = Inr r"
  with PyStr show ?thesis
    by (simp add: confidence_rank_str)
qed

lemma apply_confidence_rank_Inr:
  "apply_confidence_rank vs = Inr ranks \<Longrightarrow> ranks = map stripped_rank vs"
proof (induction vs arbitrary: ranks)
  case Nil
  then show ?case by simp
next
  case (Cons v vs)
  then show ?case
    by (auto split: sum.splits dest: confidence_rank_Inr)
qed



lemma stripped_rank_range: "stripped_rank v \<in> {0, 1, 2}"
  by (auto simp: stripped_rank_def label_rank_def number_rank_def int_rank_def
      split: pyval.splits option.splits if_splits)

text \<open>
  An integer too large for a double is not ranked: \<^verbatim>\<open>float\<close> raises \<^verbatim>\<open>OverflowError\<close>,
  which \<^verbatim>\<open>except (TypeError, ValueError)\<close> lets through.
\<close>

lemma confidence_rank_huge_int: "confidence_rank (PyInt (2 ^ 1024)) = Inl OverflowError"
  by (simp add: confidence_rank_def score_rank_def float_of_int_def)




section \<open>Rounding and the reductions\<close>

lemma rint_of_int: "rint (of_int k) = k"
  by (simp add: rint_def)

lemma grid_idem: "grid (grid x) = grid x"
  by (simp add: grid_def rint_of_int)

lemma round1_grid: "round1 (grid x) = grid x"
  by (simp add: grid_def round1_def rint_of_int)

lemma present_map_Some: "present (map (\<lambda>r. Some (f r)) xs) = map f xs"
  by (induction xs) simp_all

lemma pd_max_present:
  "pd_max xs = (if present xs = [] then None else Some (Max (set (present xs))))"
proof (induction xs rule: pd_max.induct)
  case 1
  then show ?case by simp
next
  case (2 xs)
  then show ?case by simp
next
  case (3 x xs)
  then show ?case by (cases "present xs = []") (simp_all add: max.commute)
qed

lemma pd_min_present:
  "pd_min xs = (if present xs = [] then None else Some (Min (set (present xs))))"
proof (induction xs rule: pd_min.induct)
  case 1
  then show ?case by simp
next
  case (2 xs)
  then show ?case by simp
next
  case (3 x xs)
  then show ?case by (cases "present xs = []") (simp_all add: min.commute)
qed

lemma pd_max_Some:
  "xs \<noteq> [] \<Longrightarrow> pd_max (map (\<lambda>r. Some (f r)) xs) = Some (Max (set (map f xs)))"
  by (simp add: pd_max_present present_map_Some)

lemma pd_min_Some:
  "xs \<noteq> [] \<Longrightarrow> pd_min (map (\<lambda>r. Some (f r)) xs) = Some (Min (set (map f xs)))"
  by (simp add: pd_min_present present_map_Some)

lemma pd_count_Some: "pd_count (map (\<lambda>r. Some (f r)) xs) = length xs"
  by (simp add: pd_count_def present_map_Some)

lemma pd_mean_Some:
  "xs \<noteq> [] \<Longrightarrow>
     pd_mean (map (\<lambda>r. Some (f r)) xs) = Some (sum_list (map f xs) / of_nat (length xs))"
  by (simp add: pd_mean_def pd_count_def present_map_Some)

section \<open>The aggregation, cell by cell\<close>

lemma add_columns_tagged:
  "add_columns ds (map (\<lambda>d. stripped_rank (fire_detection.confidence d)) ds) = map tagged ds"
  by (induction ds) (simp_all add: add_columns_def tagged_def)

lemma row_key_tagged: "row_key (tagged d) = cell_key d"
  by (simp add: row_key_def tagged_def cell_key_def)

lemma group_keys_tagged: "group_keys (map tagged ds) = cell_keys ds"
  by (simp add: group_keys_def cell_keys_def comp_def row_key_tagged)

lemma group_rows_tagged: "group_rows (map tagged ds) k = map tagged (cell_members ds k)"
  by (simp add: group_rows_def cell_members_def filter_map comp_def row_key_tagged)

lemma cell_members_nonempty: "k \<in> set (cell_keys ds) \<Longrightarrow> cell_members ds k \<noteq> []"
  by (auto simp: cell_keys_def cell_members_def filter_empty_conv)

lemma aggregate_tagged:
  "aggregate (map tagged ds) = map (\<lambda>k. agg k (map tagged (cell_members ds k))) (cell_keys ds)"
  by (simp add: aggregate_def group_keys_tagged group_rows_tagged)

lemma fst_Max_timestamp:
  fixes A :: "timestamp set"
  assumes "finite A" "A \<noteq> {}"
  shows "fst (Max A) = Max (fst ` A)"
proof -
  have "mono (fst :: timestamp \<Rightarrow> int)"
    by (auto simp: mono_def less_eq_prod_def)
  then show ?thesis using assms by (rule mono_Max_commute)
qed

lemma fst_Min_timestamp:
  fixes A :: "timestamp set"
  assumes "finite A" "A \<noteq> {}"
  shows "fst (Min A) = Min (fst ` A)"
proof -
  have "mono (fst :: timestamp \<Rightarrow> int)"
    by (auto simp: mono_def less_eq_prod_def)
  then show ?thesis using assms by (rule mono_Min_commute)
qed

lemma label_of_rank: "r \<in> {0, 1, 2} \<Longrightarrow> CONFIDENCE_LABELS r = Some (rank_label r)"
  by (auto simp: CONFIDENCE_LABELS_def rank_label_def)

lemma Max_rank_range:
  assumes "g \<noteq> []"
  shows "(MAX d\<in>set g. stripped_rank (fire_detection.confidence d)) \<in> {0, 1, 2}"
proof -
  let ?A = "(\<lambda>d. stripped_rank (fire_detection.confidence d)) ` set g"
  have "finite ?A" "?A \<noteq> {}" using assms by simp_all
  then have "Max ?A \<in> ?A" by (rule Max_in)
  then obtain v where "Max ?A = stripped_rank v" by auto
  then show ?thesis using stripped_rank_range [of v] by simp
qed

lemma py_round_Suc0: "py_round (Fin x) (Suc 0) = Fin (round1 x)"
  by (simp add: round1_def)

lemma round1_cell_key:
  assumes "k \<in> set (cell_keys ds)"
  shows "round1 (fst k) = fst k" and "round1 (snd k) = snd k"
  using assms by (auto simp: cell_keys_def cell_key_def round1_grid)

lemma fire_of_row_agg:
  assumes "g \<noteq> []" and "round1 (fst k) = fst k" and "round1 (snd k) = snd k"
  shows "fire_of_row (agg k (map tagged g)) = cell_record k g"
proof -
  let ?rows = "map tagged g"
  have ne: "?rows \<noteq> []" using assms by simp
  have det: "map (\<lambda>r. f (detection r)) ?rows = map f g" for f :: "fire_detection \<Rightarrow> 'b"
    by (simp add: comp_def tagged_def)
  have rk: "map confidence_rank_col ?rows
      = map (\<lambda>d. stripped_rank (fire_detection.confidence d)) g"
    by (simp add: comp_def tagged_def)
  have bmax: "pd_max (map (\<lambda>r. Some (fire_detection.brightness (detection r))) ?rows)
      = Some (Max (set (map fire_detection.brightness g)))"
    using pd_max_Some [OF ne, of "\<lambda>r. fire_detection.brightness (detection r)"]
    by (simp only: det)
  have bavg: "pd_mean (map (\<lambda>r. Some (fire_detection.brightness (detection r))) ?rows)
      = Some (sum_list (map fire_detection.brightness g) / of_nat (length g))"
    using pd_mean_Some [OF ne, of "\<lambda>r. fire_detection.brightness (detection r)"]
    by (simp only: det length_map)
  have cnt: "pd_count (map (\<lambda>r. Some (fire_detection.brightness (detection r))) ?rows)
      = length g"
    unfolding pd_count_Some by simp
  have fmax: "pd_max (map (\<lambda>r. fire_detection.frp (detection r)) ?rows)
      = (if present_frp g = [] then None else Some (Max (set (present_frp g))))"
    by (simp only: det pd_max_present present_frp_def)
  have dmin: "pd_min (map (\<lambda>r. Some (acq_date (detection r))) ?rows)
      = Some (Min (set (map acq_date g)))"
    using pd_min_Some [OF ne, of "\<lambda>r. acq_date (detection r)"] by (simp only: det)
  have dmax: "pd_max (map (\<lambda>r. Some (acq_date (detection r))) ?rows)
      = Some (Max (set (map acq_date g)))"
    using pd_max_Some [OF ne, of "\<lambda>r. acq_date (detection r)"] by (simp only: det)
  have rmax: "pd_max (map (\<lambda>r. Some (confidence_rank_col r)) ?rows)
      = Some (Max (set (map (\<lambda>d. stripped_rank (fire_detection.confidence d)) g)))"
    using pd_max_Some [OF ne, of confidence_rank_col] by (simp only: rk)
  have fmin: "fst (Min (acq_date ` set g)) = (MIN d\<in>set g. fst (acq_date d))"
    using assms(1) fst_Min_timestamp [of "acq_date ` set g"] by (simp add: image_image)
  have fmx: "fst (Max (acq_date ` set g)) = (MAX d\<in>set g. fst (acq_date d))"
    using assms(1) fst_Max_timestamp [of "acq_date ` set g"] by (simp add: image_image)
  have lbl: "CONFIDENCE_LABELS (MAX d\<in>set g. stripped_rank (fire_detection.confidence d))
      = Some (rank_label (MAX d\<in>set g. stripped_rank (fire_detection.confidence d)))"
    using Max_rank_range [OF assms(1)] by (rule label_of_rank)
  show ?thesis
    unfolding agg_def fire_of_row_def cell_record_def Let_def bmax bavg cnt fmax dmin dmax rmax
    by (simp add: float_of_cell_def date_of_cell_def format_date_def fmin fmx lbl
        py_round_Suc0 assms(2,3) del: py_round.simps)
qed

lemma minus_days_Inr: "minus_days now days = Inr t \<Longrightarrow> t = (fst now - days, snd now)"
  by (auto simp: minus_days_def split: if_splits)

lemma cutoff_date_Inr: "cutoff_date now days = Inr c \<Longrightarrow> c = fst now - days"
  by (auto simp: cutoff_date_def split: sum.splits dest: minus_days_Inr)

lemma cell_keys_Nil: "cell_keys [] = []"
  by (simp add: cell_keys_def)

lemma aggregate_cells:
  "map fire_of_row (aggregate (map tagged ds))
     = map (\<lambda>k. cell_record k (cell_members ds k)) (cell_keys ds)"
proof -
  have "fire_of_row (agg k (map tagged (cell_members ds k))) = cell_record k (cell_members ds k)"
    if "k \<in> set (cell_keys ds)" for k
    using that by (intro fire_of_row_agg cell_members_nonempty round1_cell_key)
  then show ?thesis by (simp add: aggregate_tagged)
qed

lemma export_fire_events_cells:
  assumes "export_fire_events now days (Some rows) = Inr fs"
  shows "fs = map (\<lambda>k. cell_record k (cell_members (recent (fst now - days) rows) k))
                  (cell_keys (recent (fst now - days) rows))"
proof (cases "rows = []")
  case True
  with assms show ?thesis
    by (simp add: export_fire_events_def recent_def cell_keys_Nil)
next
  case False
  with assms obtain c where c: "cutoff_date now days = Inr c"
    by (auto simp: export_fire_events_def split: sum.splits)
  then have ceq: "c = fst now - days" by (rule cutoff_date_Inr)
  let ?ds = "recent c rows"
  show ?thesis
  proof (cases "?ds = []")
    case True
    with assms False c show ?thesis
      by (simp add: export_fire_events_def ceq cell_keys_Nil)
  next
    case ne: False
    with assms False c obtain ranks
      where r: "apply_confidence_rank (map fire_detection.confidence ?ds) = Inr ranks"
        and fs: "fs = map fire_of_row (aggregate (add_columns ?ds ranks))"
      by (auto simp: export_fire_events_def Let_def split: sum.splits)
    from r have "ranks = map stripped_rank (map fire_detection.confidence ?ds)"
      by (rule apply_confidence_rank_Inr)
    then have "add_columns ?ds ranks = map tagged ?ds"
      using add_columns_tagged [of ?ds] by (simp add: comp_def)
    with fs show ?thesis by (simp add: aggregate_cells ceq)
  qed
qed

text \<open>Success conditions.\<close>

lemma apply_confidence_rank_ok:
  assumes "\<forall>v\<in>set vs. \<forall>n. v = PyInt n \<longrightarrow> \<bar>n\<bar> < 2 ^ 1024 - 2 ^ 970"
  shows "apply_confidence_rank vs = Inr (map stripped_rank vs)"
  using assms
proof (induction vs)
  case Nil
  then show ?case by simp
next
  case (Cons v vs)
  have "confidence_rank v = Inr (stripped_rank v)"
  proof (cases v)
    case (PyInt n)
    with Cons.prems have "\<bar>n\<bar> < 2 ^ 1024 - 2 ^ 970" by simp
    with PyInt show ?thesis
      by (simp add: confidence_rank_def score_rank_int_cases stripped_rank_def)
  next
    case (PyStr s)
    then show ?thesis by (simp add: confidence_rank_str)
  qed (simp_all add: confidence_rank_def stripped_rank_def score_rank_float)
  with Cons show ?case by simp
qed

lemma sum_list_indicator:
  assumes "distinct ks" and "a \<in> set ks"
  shows "(\<Sum>k\<leftarrow>ks. if a = k then 1 else 0) = (1::nat)"
  using assms by (simp add: sum_list_distinct_conv_sum_set sum.delta)

lemma sum_list_group_lengths:
  assumes "distinct ks" and "f ` set xs \<subseteq> set ks"
  shows "(\<Sum>k\<leftarrow>ks. length (filter (\<lambda>x. f x = k) xs)) = length xs"
  using assms(2)
proof (induction xs)
  case Nil
  then show ?case by simp
next
  case (Cons a xs)
  have "(\<Sum>k\<leftarrow>ks. length (filter (\<lambda>x. f x = k) (a # xs)))
      = (\<Sum>k\<leftarrow>ks. (if f a = k then 1 else 0) + length (filter (\<lambda>x. f x = k) xs))"
    by (rule arg_cong [where f = sum_list]) simp
  also have "\<dots> = (\<Sum>k\<leftarrow>ks. if f a = k then 1 else 0)
      + (\<Sum>k\<leftarrow>ks. length (filter (\<lambda>x. f x = k) xs))"
    by (rule sum_list_addf)
  also have "\<dots> = 1 + length xs"
    using Cons sum_list_indicator [OF assms(1), of "f a"] by simp
  finally show ?case by simp
qed

lemma sum_cell_members:
  "(\<Sum>k\<leftarrow>cell_keys ds. length (cell_members ds k)) = length ds"
  unfolding cell_members_def
  by (rule sum_list_group_lengths) (simp_all add: cell_keys_def)

section \<open>The fire aggregator: theorems\<close>


text \<open>
  The export of a table succeeds whenever the cutoff date can be computed and no
  confidence is an integer beyond the range of a float.
\<close>

lemma export_fire_events_total:
  assumes "cutoff_date now days = Inr c"
    and "\<forall>d\<in>set rows. \<forall>n. fire_detection.confidence d = PyInt n \<longrightarrow> \<bar>n\<bar> < 2 ^ 1024 - 2 ^ 970"
  shows "\<exists>fs. export_fire_events now days (Some rows) = Inr fs"
proof -
  have "\<forall>v\<in>set (map fire_detection.confidence (recent c rows)).
          \<forall>n. v = PyInt n \<longrightarrow> \<bar>n\<bar> < 2 ^ 1024 - 2 ^ 970"
    using assms(2) by (auto simp: recent_def)
  then have "apply_confidence_rank (map fire_detection.confidence (recent c rows))
      = Inr (map stripped_rank (map fire_detection.confidence (recent c rows)))"
    by (rule apply_confidence_rank_ok)
  with assms(1) show ?thesis
    by (simp add: export_fire_events_def Let_def)
qed




lemma sum_list_int: "(\<Sum>k\<leftarrow>ks. int (f k)) = int (\<Sum>k\<leftarrow>ks. f k)"
  by (induction ks) simp_all

text \<open>
  Claim C10.  The cells partition the detections that pass the recency filter: when the
  export of a table succeeds, the \<^verbatim>\<open>count\<close> fields of the emitted records add up to the
  number of detections that pass the filter, and every emitted record has a \<^verbatim>\<open>count\<close> of
  at least 1.
\<close>

theorem count_partition:
  assumes "export_fire_events now days (Some rows) = Inr fs"
  shows "sum_list (map fire_record.count fs) = int (length (recent (fst now - days) rows))
         \<and> (\<forall>f\<in>set fs. 1 \<le> fire_record.count f)"
proof -
  let ?ds = "recent (fst now - days) rows"
  have fs: "fs = map (\<lambda>k. cell_record k (cell_members ?ds k)) (cell_keys ?ds)"
    using assms by (rule export_fire_events_cells)
  have "sum_list (map fire_record.count fs)
      = (\<Sum>k\<leftarrow>cell_keys ?ds. int (length (cell_members ?ds k)))"
    by (simp add: fs comp_def cell_record_def)
  also have "\<dots> = int (\<Sum>k\<leftarrow>cell_keys ?ds. length (cell_members ?ds k))"
    by (rule sum_list_int)
  also have "\<dots> = int (length ?ds)"
    by (simp only: sum_cell_members)
  finally have total: "sum_list (map fire_record.count fs) = int (length ?ds)" .
  have each: "1 \<le> fire_record.count f" if "f \<in> set fs" for f
  proof -
    from that fs obtain k where k: "k \<in> set (cell_keys ?ds)"
      and f: "f = cell_record k (cell_members ?ds k)" by auto
    from k have "cell_members ?ds k \<noteq> []" by (rule cell_members_nonempty)
    then have "1 \<le> int (length (cell_members ?ds k))"
      by (cases "cell_members ?ds k") simp_all
    moreover have "fire_record.count f = int (length (cell_members ?ds k))"
      by (simp add: f cell_record_def)
    ultimately show ?thesis by simp
  qed
  from total each show ?thesis by blast
qed

text \<open>
  A table of five detections: three in one cell, one in a second cell, and one that is
  older than the window.  Two records, with the counts 3 and 1, for the four detections
  that pass the filter.
\<close>

theorem count_partition_witness:
  "let ds = [\<lparr>latitude = 12.34, longitude = 56.78, acq_date = (739641, 0), brightness = 10,
               frp = None, confidence = PyInt 20\<rparr>,
             \<lparr>latitude = 40.02, longitude = -3.71, acq_date = (739600, 9), brightness = 310,
               frp = None, confidence = PyStr ''h''\<rparr>,
             \<lparr>latitude = 12.33, longitude = 56.76, acq_date = (739643, 5), brightness = 20,
               frp = Some 5.26, confidence = PyStr ''n''\<rparr>,
             \<lparr>latitude = -33.87, longitude = 151.21, acq_date = (739699, 1), brightness = 325.5,
               frp = Some 12, confidence = PyStr ''l''\<rparr>,
             \<lparr>latitude = 12.31, longitude = 56.80, acq_date = (739642, 7), brightness = 30,
               frp = Some 2, confidence = PyFloat (Fin 90)\<rparr>];
       fs = projr (export_fire_events (739700, 43200000000) 90 (Some ds))
   in export_fire_events (739700, 43200000000) 90 (Some ds) = Inr fs
      \<and> map fire_record.count fs = [1, 3]
      \<and> sum_list (map fire_record.count fs) = int (length (recent (739700 - 90) ds))
      \<and> length (recent (739700 - 90) ds) = 4
      \<and> 1 \<le> fire_record.count (hd fs) \<and> 1 \<le> fire_record.count (last fs)"
proof -
  define ds where "ds =
     [\<lparr>latitude = 12.34, longitude = 56.78, acq_date = (739641, 0), brightness = 10,
        frp = None, confidence = PyInt 20\<rparr>,
      \<lparr>latitude = 40.02, longitude = -3.71, acq_date = (739600, 9), brightness = 310,
        frp = None, confidence = PyStr ''h''\<rparr>,
      \<lparr>latitude = 12.33, longitude = 56.76, acq_date = (739643, 5), brightness = 20,
        frp = Some 5.26, confidence = PyStr ''n''\<rparr>,
      \<lparr>latitude = -33.87, longitude = 151.21, acq_date = (739699, 1), brightness = 325.5,
        frp = Some 12, confidence = PyStr ''l''\<rparr>,
      \<lparr>latitude = 12.31, longitude = 56.80, acq_date = (739642, 7), brightness = 30,
        frp = Some 2, confidence = PyFloat (Fin 90)\<rparr>]"
  define fs where "fs = projr (export_fire_events (739700, 43200000000) 90 (Some ds))"
  have ok: "isl (export_fire_events (739700, 43200000000) 90 (Some ds)) = False"
    unfolding ds_def by code_simp
  have h: "export_fire_events (739700, 43200000000) 90 (Some ds) = Inr fs"
    unfolding fs_def using ok by (cases "export_fire_events (739700, 43200000000) 90 (Some ds)") simp_all
  have c: "map fire_record.count fs = [1, 3]"
    unfolding fs_def ds_def by code_simp
  have n: "length (recent (739700 - 90) ds) = 4"
    unfolding ds_def by code_simp
  from c have ne: "fs \<noteq> []" by auto
  note t = count_partition [OF h]
  from t have s: "sum_list (map fire_record.count fs) = int (length (recent (739700 - 90) ds))"
    by simp
  from t ne have e: "1 \<le> fire_record.count (hd fs)" "1 \<le> fire_record.count (last fs)"
    by simp_all
  from h c s n e show ?thesis
    unfolding Let_def fs_def [symmetric] ds_def [symmetric] by blast
qed

lemma group_rows_unique:
  assumes "r \<in> set rows"
  shows "\<exists>!k. k \<in> set (group_keys rows) \<and> r \<in> set (group_rows rows k)"
proof (rule ex1I [where a = "row_key r"])
  show "row_key r \<in> set (group_keys rows) \<and> r \<in> set (group_rows rows (row_key r))"
    using assms by (simp add: group_keys_def group_rows_def)
next
  fix k assume "k \<in> set (group_keys rows) \<and> r \<in> set (group_rows rows k)"
  then show "k = row_key r" by (simp add: group_rows_def)
qed

lemma row_key_add_columns:
  "length ranks = length ds \<Longrightarrow>
     map row_key (add_columns ds ranks) = map (\<lambda>d. (grid (latitude d), grid (longitude d))) ds"
proof (induction ds arbitrary: ranks)
  case Nil
  then show ?case by (simp add: add_columns_def)
next
  case (Cons d ds)
  then obtain r rs where "ranks = r # rs" by (cases ranks) auto
  with Cons show ?case by (simp add: add_columns_def row_key_def)
qed

text \<open>
  Claim C3.  The grid snap \<open>round(x * 10) / 10\<close> is idempotent.  The key of the row of a
  detection is the snap of its latitude paired with the snap of its longitude, so two
  detections whose coordinates snap to the same values have the same key.  The keys of
  the groups are distinct, and every row belongs to the group of exactly one key.  The
  cells of the exported records are the distinct keys of the detections that pass the
  recency filter, in ascending order: they depend on nothing but the table and the
  cutoff date, so a second run on the same input gives the same cells.
\<close>

theorem grid_assignment:
  "grid (grid x) = grid x
   \<and> (length ranks = length ds \<longrightarrow>
        map row_key (add_columns ds ranks)
          = map (\<lambda>d. (grid (latitude d), grid (longitude d))) ds)
   \<and> (grid (latitude d1) = grid (latitude d2) \<and> grid (longitude d1) = grid (longitude d2)
        \<longrightarrow> map row_key (add_columns [d1] [r1]) = map row_key (add_columns [d2] [r2]))
   \<and> distinct (group_keys rows)
   \<and> (\<forall>r\<in>set rows. \<exists>!k. k \<in> set (group_keys rows) \<and> r \<in> set (group_rows rows k))
   \<and> (export_fire_events now days (Some table) = Inr fs \<longrightarrow>
        map (\<lambda>f. (fire_record.lat f, fire_record.lon f)) fs
          = map (\<lambda>k. (Fin (fst k), Fin (snd k)))
              (sort (remdups (map (\<lambda>d. (grid (latitude d), grid (longitude d)))
                 (recent (fst now - days) table)))))"
proof -
  have same: "map row_key (add_columns [d1] [r1]) = map row_key (add_columns [d2] [r2])"
    if "grid (latitude d1) = grid (latitude d2) \<and> grid (longitude d1) = grid (longitude d2)"
    using that by (simp add: add_columns_def row_key_def)
  have cells: "map (\<lambda>f. (fire_record.lat f, fire_record.lon f)) fs
      = map (\<lambda>k. (Fin (fst k), Fin (snd k)))
          (sort (remdups (map (\<lambda>d. (grid (latitude d), grid (longitude d)))
             (recent (fst now - days) table))))"
    if "export_fire_events now days (Some table) = Inr fs"
  proof -
    have "cell_keys (recent (fst now - days) table)
        = sort (remdups (map (\<lambda>d. (grid (latitude d), grid (longitude d)))
            (recent (fst now - days) table)))"
      by (simp add: cell_keys_def cell_key_def [abs_def])
    with export_fire_events_cells [OF that] show ?thesis
      by (simp add: comp_def cell_record_def)
  qed
  from grid_idem row_key_add_columns group_rows_unique same cells show ?thesis
    by (simp add: group_keys_def)
qed

text \<open>
  The detections at (12.34, 56.78) and (12.36, 56.76): the first is in the cell
  (12.3, 56.8), the second in the cell (12.4, 56.8), and these are the cells of the two
  exported records.  A detection at (12.31, 56.80) has the key of the first.
\<close>

theorem grid_assignment_witness:
  "let d1 = \<lparr>latitude = 12.34, longitude = 56.78, acq_date = (739641, 0), brightness = 10,
              frp = None, confidence = PyInt 20\<rparr>;
       d2 = \<lparr>latitude = 12.36, longitude = 56.76, acq_date = (739643, 5), brightness = 20,
              frp = None, confidence = PyStr ''n''\<rparr>;
       d3 = \<lparr>latitude = 12.31, longitude = 56.80, acq_date = (739642, 7), brightness = 30,
              frp = Some 2, confidence = PyFloat (Fin 90)\<rparr>
   in grid 12.34 = 12.3 \<and> grid (grid 12.34) = 12.3
      \<and> map row_key (add_columns [d1, d2] [0, 1]) = [(12.3, 56.8), (12.4, 56.8)]
      \<and> map row_key (add_columns [d1] [0]) = map row_key (add_columns [d3] [2])
      \<and> distinct (group_keys (add_columns [d1, d2] [0, 1]))
      \<and> map (\<lambda>f. (fire_record.lat f, fire_record.lon f))
            (projr (export_fire_events (739700, 43200000000) 90 (Some [d1, d2])))
          = [(Fin 12.3, Fin 56.8), (Fin 12.4, Fin 56.8)]"
proof -
  define d1 where "d1 =
     \<lparr>latitude = 12.34, longitude = 56.78, acq_date = (739641, 0), brightness = 10,
      frp = None, confidence = PyInt 20\<rparr>"
  define d2 where "d2 =
     \<lparr>latitude = 12.36, longitude = 56.76, acq_date = (739643, 5), brightness = 20,
      frp = None, confidence = PyStr ''n''\<rparr>"
  define d3 where "d3 =
     \<lparr>latitude = 12.31, longitude = 56.80, acq_date = (739642, 7), brightness = 30,
      frp = Some 2, confidence = PyFloat (Fin 90)\<rparr>"
  define fs where "fs = projr (export_fire_events (739700, 43200000000) 90 (Some [d1, d2]))"
  have g: "grid 12.34 = 12.3" by code_simp
  have k: "map (\<lambda>d. (grid (latitude d), grid (longitude d))) [d1, d2]
      = [(12.3, 56.8), (12.4, 56.8)]"
    unfolding d1_def d2_def by code_simp
  have s: "grid (latitude d1) = grid (latitude d3) \<and> grid (longitude d1) = grid (longitude d3)"
    unfolding d1_def d3_def by code_simp
  have ok: "isl (export_fire_events (739700, 43200000000) 90 (Some [d1, d2])) = False"
    unfolding d1_def d2_def by code_simp
  have h: "export_fire_events (739700, 43200000000) 90 (Some [d1, d2]) = Inr fs"
    unfolding fs_def using ok
    by (cases "export_fire_events (739700, 43200000000) 90 (Some [d1, d2])") simp_all
  have r: "sort (remdups (map (\<lambda>d. (grid (latitude d), grid (longitude d)))
      (recent (fst (739700 :: int, 43200000000 :: int) - 90) [d1, d2])))
      = [(12.3, 56.8), (12.4, 56.8)]"
    unfolding d1_def d2_def by code_simp
  note t = grid_assignment [where x = "12.34" and ranks = "[0, 1]" and ds = "[d1, d2]"
      and rows = "add_columns [d1, d2] [0, 1]" and ?d1.0 = d1 and ?d2.0 = d3 and ?r1.0 = 0
      and ?r2.0 = 2 and now = "(739700, 43200000000)" and days = 90 and table = "[d1, d2]"
      and fs = fs]
  from t g have a: "grid (grid 12.34) = 12.3" by simp
  from t k have b: "map row_key (add_columns [d1, d2] [0, 1]) = [(12.3, 56.8), (12.4, 56.8)]"
    by simp
  from t s have c: "map row_key (add_columns [d1] [0]) = map row_key (add_columns [d3] [2])"
    by blast
  from t have d: "distinct (group_keys (add_columns [d1, d2] [0, 1]))" by blast
  from t h have "map (\<lambda>f. (fire_record.lat f, fire_record.lon f)) fs
      = map (\<lambda>k. (Fin (fst k), Fin (snd k)))
          (sort (remdups (map (\<lambda>d. (grid (latitude d), grid (longitude d)))
             (recent (fst (739700 :: int, 43200000000 :: int) - 90) [d1, d2]))))"
    by blast
  then have e: "map (\<lambda>f. (fire_record.lat f, fire_record.lon f)) fs
      = [(Fin 12.3, Fin 56.8), (Fin 12.4, Fin 56.8)]"
    unfolding r by simp
  from g a b c d e show ?thesis
    unfolding Let_def fs_def [symmetric] d1_def [symmetric] d2_def [symmetric]
      d3_def [symmetric] by blast
qed

lemma cutoff_date_ok:
  "cutoff_date now days = Inr (fst now - days) \<longleftrightarrow>
     \<bar>days\<bar> \<le> MAX_DELTA_DAYS \<and> MINORDINAL \<le> fst now - days \<and> fst now - days \<le> MAXORDINAL"
  by (auto simp: cutoff_date_def minus_days_def)

text \<open>
  Claim C4.  When the cutoff date can be computed it is the current date minus \<open>days\<close>,
  and a detection passes the recency filter exactly when its acquisition date is not
  before the cutoff date.  The time of day plays no part: whatever its time, a detection
  dated the current date minus \<open>days\<close> is kept, and one dated a day earlier is excluded.
\<close>

theorem recency_boundary:
  assumes "cutoff_date now days = Inr c"
  shows "c = fst now - days
         \<and> (\<forall>d. d \<in> set (recent c data)
                  \<longleftrightarrow> d \<in> set data \<and> fst now - days \<le> fst (acq_date d))
         \<and> (\<forall>d t. recent c [d\<lparr>acq_date := (fst now - days, t)\<rparr>]
                    = [d\<lparr>acq_date := (fst now - days, t)\<rparr>])
         \<and> (\<forall>d t. recent c [d\<lparr>acq_date := (fst now - days - 1, t)\<rparr>] = [])"
proof -
  have c: "c = fst now - days" using assms by (rule cutoff_date_Inr)
  show ?thesis
    by (simp add: c recent_def)
qed

text \<open>
  At noon of 2026-03-25 with a window of 90 days the cutoff date is 2025-12-25: a
  detection of 23:00 on that day is exported, one of 23:00 on the day before is not.
\<close>

theorem recency_boundary_witness:
  "let d = \<lparr>latitude = 12.34, longitude = 56.78, acq_date = (739610, 82800000000),
             brightness = 10, frp = None, confidence = PyInt 20\<rparr>
   in cutoff_date (739700, 43200000000) 90 = Inr 739610
      \<and> isoformat_date 739610 = ''2025-12-25''
      \<and> recent 739610 [d] = [d]
      \<and> recent 739610 [d\<lparr>acq_date := (739609, 82800000000)\<rparr>] = []
      \<and> map fire_record.count
           (projr (export_fire_events (739700, 43200000000) 90
              (Some [d, d\<lparr>acq_date := (739609, 82800000000)\<rparr>]))) = [1]"
proof -
  define d where "d =
     \<lparr>latitude = 12.34, longitude = 56.78, acq_date = (739610, 82800000000),
      brightness = 10, frp = None, confidence = PyInt 20\<rparr>"
  have h: "cutoff_date (739700, 43200000000) 90 = Inr 739610"
    by (simp add: cutoff_date_def minus_days_def MAX_DELTA_DAYS_def MINORDINAL_def
        MAXORDINAL_def)
  have i: "isoformat_date 739610 = ''2025-12-25''" by code_simp
  have e: "map fire_record.count
           (projr (export_fire_events (739700, 43200000000) 90
              (Some [d, d\<lparr>acq_date := (739609, 82800000000)\<rparr>]))) = [1]"
    unfolding d_def by code_simp
  have a: "d\<lparr>acq_date := (739610, 82800000000)\<rparr> = d" by (simp add: d_def)
  have rb: "(\<forall>d t. recent 739610 [d\<lparr>acq_date := (739610, t)\<rparr>]
                 = [d\<lparr>acq_date := (739610, t)\<rparr>])
            \<and> (\<forall>d t. recent 739610 [d\<lparr>acq_date := (739609, t)\<rparr>] = [])"
    using recency_boundary [OF h, of "[d]"] by simp
  from rb have "recent 739610 [d\<lparr>acq_date := (739610, 82800000000)\<rparr>]
      = [d\<lparr>acq_date := (739610, 82800000000)\<rparr>]" by blast
  with a have k: "recent 739610 [d] = [d]" by simp
  from rb have x: "recent 739610 [d\<lparr>acq_date := (739609, 82800000000)\<rparr>] = []" by blast
  from h i e k x show ?thesis
    unfolding Let_def d_def [symmetric] by simp
qed

text \<open>
  Claim C7.  No input is not an error.  Without a table, or with a table of no rows, the
  fire exporter returns the empty list; it returns the empty list as well when no row
  passes the recency filter.  When the earthquake client answers with no records, the
  earthquake exporter returns the empty list.
\<close>

theorem empty_input_no_error:
  "export_fire_events now days None = Inr []
   \<and> export_fire_events now days (Some []) = Inr []
   \<and> (\<forall>c. cutoff_date now days = Inr c \<and> recent c rows = []
          \<longrightarrow> export_fire_events now days (Some rows) = Inr [])
   \<and> (\<forall>t. minus_days now days = Inr t
          \<longrightarrow> export_earthquake_events now days (Some []) = Inr []
              \<and> export_earthquake_events now days None = Inr [])"
  by (auto simp: export_fire_events_def export_earthquake_events_def)

theorem empty_input_no_error_witness:
  "export_fire_events (739700, 43200000000) 90 None = Inr []
   \<and> export_fire_events (739700, 43200000000) 90 (Some []) = Inr []
   \<and> export_fire_events (739700, 43200000000) 90
        (Some [\<lparr>latitude = 12.34, longitude = 56.78, acq_date = (739609, 82800000000),
                 brightness = 10, frp = None, confidence = PyInt 20\<rparr>]) = Inr []
   \<and> export_earthquake_events (739700, 43200000000) 90 (Some []) = Inr []
   \<and> export_earthquake_events (739700, 43200000000) 90 None = Inr []"
proof -
  have m: "minus_days (739700, 43200000000) 90 = Inr (739610, 43200000000)"
    by (simp add: minus_days_def MAX_DELTA_DAYS_def MINORDINAL_def MAXORDINAL_def)
  have c: "cutoff_date (739700, 43200000000) 90 = Inr 739610"
    by (simp add: cutoff_date_def m)
  have r: "recent 739610
        [\<lparr>latitude = 12.34, longitude = 56.78, acq_date = (739609, 82800000000),
          brightness = 10, frp = None, confidence = PyInt 20\<rparr>] = []"
    by (simp add: recent_def)
  from empty_input_no_error [of "(739700, 43200000000)" 90
      "[\<lparr>latitude = 12.34, longitude = 56.78, acq_date = (739609, 82800000000),
         brightness = 10, frp = None, confidence = PyInt 20\<rparr>]"] m c r
  show ?thesis by simp
qed

section \<open>The earthquake normalizer: theorems\<close>

lemma dict_get_ok:
  assumes "well_formed_quake q" and "k \<in> set numeric_fields"
  shows "py_float (dict_get q k (PyInt 0)) = Inr (number_or_zero q k)"
proof (cases "q k")
  case None
  then show ?thesis
    by (simp add: dict_get_def number_or_zero_def float_of_int_def)
next
  case (Some v)
  with assms have "\<not> isl (py_float v)"
    by (auto simp: well_formed_quake_def)
  with Some show ?thesis
    by (cases "py_float v") (simp_all add: dict_get_def number_or_zero_def)
qed

lemma earthquake_of_ok:
  assumes "well_formed_quake q"
  shows "earthquake_of q = Inr (normalized_quake q)"
proof -
  have "py_float (dict_get q ''latitude'' (PyInt 0)) = Inr (number_or_zero q ''latitude'')"
    and "py_float (dict_get q ''longitude'' (PyInt 0)) = Inr (number_or_zero q ''longitude'')"
    and "py_float (dict_get q ''mag'' (PyInt 0)) = Inr (number_or_zero q ''mag'')"
    and "py_float (dict_get q ''depth_km'' (PyInt 0)) = Inr (number_or_zero q ''depth_km'')"
    using assms by (simp_all add: dict_get_ok numeric_fields_def)
  then show ?thesis
    by (simp add: earthquake_of_def normalized_quake_def dict_get_def del: py_round.simps)
qed

lemma convert_quakes_ok:
  "\<forall>q\<in>set quakes. well_formed_quake q \<Longrightarrow>
     convert_quakes quakes = Inr (map normalized_quake quakes)"
  by (induction quakes) (simp_all add: earthquake_of_ok)



text \<open>
  A raw record with a numeric field that is present and is no number ends the export:
  the export returns its records exactly when every raw record is well formed.
\<close>

lemma earthquake_of_malformed: "\<not> well_formed_quake q \<Longrightarrow> isl (earthquake_of q)"
  by (auto simp: earthquake_of_def well_formed_quake_def numeric_fields_def dict_get_def
      split: sum.splits option.splits)

lemma convert_quakes_malformed:
  "\<exists>q\<in>set quakes. \<not> well_formed_quake q \<Longrightarrow> isl (convert_quakes quakes)"
proof (induction quakes)
  case Nil
  then show ?case by simp
next
  case (Cons q quakes)
  show ?case
  proof (cases "well_formed_quake q")
    case True
    with Cons have "isl (convert_quakes quakes)" by simp
    then show ?thesis by (auto split: sum.splits)
  next
    case False
    then have "isl (earthquake_of q)" by (rule earthquake_of_malformed)
    then show ?thesis by (auto split: sum.splits)
  qed
qed

lemma export_earthquake_events_ok_iff:
  assumes "minus_days now days = Inr t"
  shows "\<not> isl (export_earthquake_events now days (Some quakes))
           \<longleftrightarrow> (\<forall>q\<in>set quakes. well_formed_quake q)"
proof
  assume "\<not> isl (export_earthquake_events now days (Some quakes))"
  with assms have "\<not> isl (convert_quakes quakes)"
    by (cases "quakes = []") (simp_all add: export_earthquake_events_def)
  then show "\<forall>q\<in>set quakes. well_formed_quake q"
    using convert_quakes_malformed by blast
next
  assume "\<forall>q\<in>set quakes. well_formed_quake q"
  with assms show "\<not> isl (export_earthquake_events now days (Some quakes))"
    by (simp add: export_earthquake_events_def convert_quakes_ok)
qed

text \<open>
  Claim C8, on the code.  A bad confidence value does not stop the fire exporter: a
  string that is neither a label nor a number has rank 0, and its detection is exported.
  The earthquake exporter has no such protection: \<^verbatim>\<open>quake.get('mag', 0)\<close> returns the
  value of a key that is present, so a null magnitude reaches \<^verbatim>\<open>float\<close>, which raises
  \<^verbatim>\<open>TypeError\<close>; an unparsable string raises \<^verbatim>\<open>ValueError\<close>.  Neither is caught, and the
  export ends without any record.
\<close>

theorem malformed_earthquake_field_aborts:
  "export_earthquake_events (739700, 43200000000) 90
     (Some [[''latitude'' \<mapsto> PyFloat (Fin 35.1), ''longitude'' \<mapsto> PyFloat (Fin (-120.5)),
             ''mag'' \<mapsto> PyFloat (Fin 3.1), ''depth_km'' \<mapsto> PyFloat (Fin 7)],
            [''latitude'' \<mapsto> PyFloat (Fin 36.2), ''longitude'' \<mapsto> PyFloat (Fin (-121.5)),
             ''mag'' \<mapsto> PyNone, ''depth_km'' \<mapsto> PyFloat (Fin 5)]])
     = Inl TypeError
   \<and> export_earthquake_events (739700, 43200000000) 90
       (Some [[''latitude'' \<mapsto> PyFloat (Fin 36.2), ''longitude'' \<mapsto> PyFloat (Fin (-121.5)),
               ''mag'' \<mapsto> PyFloat (Fin 4), ''depth_km'' \<mapsto> PyStr ''unknown'']])
     = Inl ValueError
   \<and> export_fire_events (739700, 43200000000) 90
       (Some [\<lparr>latitude = 12.34, longitude = 56.78, acq_date = (739641, 0), brightness = 10,
                frp = None, confidence = PyStr ''garbage''\<rparr>])
     = Inr [\<lparr>fire_record.lat = Fin 12.3, fire_record.lon = Fin 56.8,
              fire_record.date = ''2026-01-25'', fire_record.date_first = ''2026-01-25'',
              fire_record.brightness = Fin 10, fire_record.brightness_avg = Fin 10,
              fire_record.frp = None, fire_record.count = 1,
              fire_record.confidence = ''low''\<rparr>]"
  by code_simp

section \<open>The statistics of the document: theorems\<close>

lemma float_lt_trans: "float_lt a b \<Longrightarrow> float_lt b c \<Longrightarrow> float_lt a c"
  by (cases a; cases b; cases c) (auto simp: float_lt_def)

lemma float_le_total: "a \<noteq> NaN \<Longrightarrow> b \<noteq> NaN \<Longrightarrow> float_le a b \<or> float_lt b a"
  by (cases a; cases b) (auto simp: float_lt_def)

lemma min_from_mem: "min_from m xs \<in> set (m # xs)"
  by (induction xs arbitrary: m) auto

lemma max_from_mem: "max_from m xs \<in> set (m # xs)"
  by (induction xs arbitrary: m) auto

lemma min_from_below: "min_from m xs = m \<or> float_lt (min_from m xs) m"
proof (induction xs arbitrary: m)
  case Nil
  then show ?case by simp
next
  case (Cons x xs)
  show ?case
  proof (cases "float_lt x m")
    case True
    with Cons [of x] show ?thesis by (auto intro: float_lt_trans)
  next
    case False
    with Cons [of m] show ?thesis by simp
  qed
qed

lemma max_from_above: "max_from m xs = m \<or> float_lt m (max_from m xs)"
proof (induction xs arbitrary: m)
  case Nil
  then show ?case by simp
next
  case (Cons x xs)
  show ?case
  proof (cases "float_lt m x")
    case True
    with Cons [of x] show ?thesis by (auto simp: float_gt_def intro: float_lt_trans)
  next
    case False
    with Cons [of m] show ?thesis by (simp add: float_gt_def)
  qed
qed

lemma min_from_minimal: "y \<in> set (m # xs) \<Longrightarrow> \<not> float_lt y (min_from m xs)"
proof (induction xs arbitrary: m y)
  case Nil
  then show ?case by (simp add: float_lt_def)
next
  case (Cons x xs)
  let ?m = "if float_lt x m then x else m"
  have r: "min_from m (x # xs) = min_from ?m xs" by simp
  have below: "min_from ?m xs = ?m \<or> float_lt (min_from ?m xs) ?m" by (rule min_from_below)
  show ?case
  proof (cases "y \<in> set (?m # xs)")
    case True
    then show ?thesis unfolding r by (rule Cons.IH)
  next
    case False
    with Cons.prems have y: "(float_lt x m \<and> y = m) \<or> (\<not> float_lt x m \<and> y = x)"
      by (auto split: if_splits)
    have keep: "\<not> float_lt ?m (min_from ?m xs)" by (rule Cons.IH) simp
    show ?thesis
    proof
      assume lt: "float_lt y (min_from m (x # xs))"
      from y show False
      proof
        assume "float_lt x m \<and> y = m"
        with lt keep show False unfolding r by (auto dest: float_lt_trans)
      next
        assume "\<not> float_lt x m \<and> y = x"
        with lt below show False unfolding r by (auto dest: float_lt_trans)
      qed
    qed
  qed
qed

lemma max_from_maximal: "y \<in> set (m # xs) \<Longrightarrow> \<not> float_gt y (max_from m xs)"
proof (induction xs arbitrary: m y)
  case Nil
  then show ?case by (simp add: float_gt_def float_lt_def)
next
  case (Cons x xs)
  let ?m = "if float_gt x m then x else m"
  have r: "max_from m (x # xs) = max_from ?m xs" by simp
  have above: "max_from ?m xs = ?m \<or> float_lt ?m (max_from ?m xs)" by (rule max_from_above)
  show ?case
  proof (cases "y \<in> set (?m # xs)")
    case True
    then show ?thesis unfolding r by (rule Cons.IH)
  next
    case False
    with Cons.prems have y: "(float_gt x m \<and> y = m) \<or> (\<not> float_gt x m \<and> y = x)"
      by (auto split: if_splits)
    have keep: "\<not> float_gt ?m (max_from ?m xs)" by (rule Cons.IH) simp
    show ?thesis
    proof
      assume gt: "float_gt y (max_from m (x # xs))"
      from y show False
      proof
        assume "float_gt x m \<and> y = m"
        with gt keep show False unfolding r float_gt_def by (auto dest: float_lt_trans)
      next
        assume "\<not> float_gt x m \<and> y = x"
        with gt above show False unfolding r float_gt_def by (auto dest: float_lt_trans)
      qed
    qed
  qed
qed

lemma py_min_is_min:
  assumes "xs \<noteq> []"
  shows "is_min_of (py_min xs dflt) xs"
proof -
  from assms obtain m rest where xs: "xs = m # rest" by (cases xs) auto
  have mem: "min_from m rest \<in> set (m # rest)" by (rule min_from_mem)
  have low: "\<not> float_lt x (min_from m rest)" if "x \<in> set (m # rest)" for x
    using that by (rule min_from_minimal)
  have le: "float_le (min_from m rest) x"
    if "\<forall>y\<in>set (m # rest). y \<noteq> NaN" and "x \<in> set (m # rest)" for x
    using that mem low [of x] float_le_total [of "min_from m rest" x] by blast
  from mem low le show ?thesis
    unfolding is_min_of_def xs py_min_def by (simp del: min_from.simps)
qed

lemma py_max_is_max:
  assumes "xs \<noteq> []"
  shows "is_max_of (py_max xs dflt) xs"
proof -
  from assms obtain m rest where xs: "xs = m # rest" by (cases xs) auto
  have mem: "max_from m rest \<in> set (m # rest)" by (rule max_from_mem)
  have high: "\<not> float_gt x (max_from m rest)" if "x \<in> set (m # rest)" for x
    using that by (rule max_from_maximal)
  have le: "float_le x (max_from m rest)"
    if "\<forall>y\<in>set (m # rest). y \<noteq> NaN" and "x \<in> set (m # rest)" for x
    using that mem high [of x] float_le_total [of x "max_from m rest"]
    unfolding float_gt_def by blast
  from mem high le show ?thesis
    unfolding is_max_of_def xs py_max_def by (simp del: max_from.simps)
qed

lemma build_output_ranges:
  "range_of (map fire_record.brightness fs) (fire_brightness_range (statistics (build_output fs qs)))
   \<and> range_of (map magnitude qs) (earthquake_magnitude_range (statistics (build_output fs qs)))
   \<and> fires (build_output fs qs) = fs \<and> earthquakes (build_output fs qs) = qs"
  by (simp add: build_output_def range_of_def py_min_is_min py_max_is_max)

lemma main_output_Inr:
  "main_output now days data quakes_raw = Inr doc \<Longrightarrow>
     \<exists>fs qs. export_fire_events now days data = Inr fs
       \<and> export_earthquake_events now days quakes_raw = Inr qs \<and> doc = build_output fs qs"
  by (auto simp: main_output_def split: sum.splits)

text \<open>
  Claim C6.  In every document that \<^verbatim>\<open>main\<close> assembles, the fire records and the
  earthquake records are those the two exporters returned, the brightness range is the
  minimum and the maximum of the \<^verbatim>\<open>brightness\<close> fields of the fire records of the document,
  and the magnitude range is the minimum and the maximum of the \<^verbatim>\<open>magnitude\<close> fields of
  its earthquake records.  The range of a category without records is
  \<open>{min: 0, max: 0}\<close>.
\<close>

theorem statistics_ranges:
  assumes "main_output now days data quakes_raw = Inr doc"
  shows "export_fire_events now days data = Inr (fires doc)
         \<and> export_earthquake_events now days quakes_raw = Inr (earthquakes doc)
         \<and> range_of (map fire_record.brightness (fires doc))
              (fire_brightness_range (statistics doc))
         \<and> range_of (map magnitude (earthquakes doc))
              (earthquake_magnitude_range (statistics doc))
         \<and> total_fires (statistics doc) = int (length (fires doc))
         \<and> total_earthquakes (statistics doc) = int (length (earthquakes doc))"
proof -
  from assms obtain fs qs where f: "export_fire_events now days data = Inr fs"
    and q: "export_earthquake_events now days quakes_raw = Inr qs"
    and d: "doc = build_output fs qs"
    by (auto dest: main_output_Inr)
  have t: "total_fires (statistics doc) = int (length (fires doc))"
    "total_earthquakes (statistics doc) = int (length (earthquakes doc))"
    by (simp_all add: d build_output_def)
  from f q t build_output_ranges [of fs qs] show ?thesis
    unfolding d by simp
qed

text \<open>
  Two earthquakes of the magnitudes 3.1 and 5.8 and no fire: the magnitude range is
  \<open>{min: 3.1, max: 5.8}\<close> and the brightness range \<open>{min: 0, max: 0}\<close>.
\<close>

theorem statistics_ranges_witness:
  "let doc = projr (main_output (739700, 43200000000) 90 None
                 (Some [[''mag'' \<mapsto> PyFloat (Fin 3.1)], [''mag'' \<mapsto> PyFloat (Fin 5.8)]]))
   in map magnitude (earthquakes doc) = [Fin 3.1, Fin 5.8]
      \<and> earthquake_magnitude_range (statistics doc)
           = \<lparr>range_min = Fin 3.1, range_max = Fin 5.8\<rparr>
      \<and> fires doc = []
      \<and> fire_brightness_range (statistics doc) = \<lparr>range_min = Fin 0, range_max = Fin 0\<rparr>
      \<and> range_of (map magnitude (earthquakes doc)) (earthquake_magnitude_range (statistics doc))
      \<and> range_of (map fire_record.brightness (fires doc))
           (fire_brightness_range (statistics doc))"
proof -
  define out where "out = main_output (739700, 43200000000) 90 None
     (Some [[''mag'' \<mapsto> PyFloat (Fin 3.1)], [''mag'' \<mapsto> PyFloat (Fin 5.8)]])"
  have ok: "isl out = False" unfolding out_def by code_simp
  then have h: "out = Inr (projr out)" by (cases out) simp_all
  have m: "map magnitude (earthquakes (projr out)) = [Fin 3.1, Fin 5.8]"
    unfolding out_def by code_simp
  have r: "earthquake_magnitude_range (statistics (projr out))
      = \<lparr>range_min = Fin 3.1, range_max = Fin 5.8\<rparr>"
    unfolding out_def by code_simp
  have f: "fires (projr out) = []" unfolding out_def by code_simp
  have b: "fire_brightness_range (statistics (projr out))
      = \<lparr>range_min = Fin 0, range_max = Fin 0\<rparr>"
    unfolding out_def by code_simp
  from statistics_ranges [OF h [unfolded out_def]] m r f b show ?thesis
    unfolding Let_def out_def by simp
qed

section \<open>The date formatter: theorems\<close>




end
